theory Spec2Isabelle
  imports Complex_Main
begin

section \<open>Influence zones and leaf morphing: a model of the TypeScript sources\<close>

text \<open>
  Conventions of the model.
  \<^item> Positions, radii, effect multipliers and elapsed times are JavaScript numbers that the
    code only ever computes from finite values; they are modelled as \<^typ>\<open>real\<close>, with
    exact arithmetic (rounding and the infinities are outside the model).
  \<^item> The shape parameters of a leaf can become \<open>NaN\<close>, because the code reads them from
    whatever a table lookup returns; they are modelled by the type \<open>number\<close> below: a
    finite value, as a real, or \<open>NaN\<close>.
  \<^item> A lookup \<open>obj[key]\<close> on a plain object finds the object's own property, or else the
    member of \<open>Object.prototype\<close> of that name, or else \<open>undefined\<close>.
    \<open>Object.prototype\<close> is the standard one, unmodified.
  \<^item> React state (\<open>useState\<close>, \<open>useRef\<close>) is an explicit record that each callback
    takes and returns.
\<close>

subsection \<open>JavaScript numbers and property lookup\<close>

datatype number = Num real | NaN

text \<open>Arithmetic on numbers: \<open>NaN\<close> as an operand gives \<open>NaN\<close>.\<close>

instantiation number :: "{plus, minus, times}"
begin

fun plus_number :: "number \<Rightarrow> number \<Rightarrow> number" where
  "Num a + Num b = Num (a + b)"
| "_ + _ = NaN"

fun minus_number :: "number \<Rightarrow> number \<Rightarrow> number" where
  "Num a - Num b = Num (a - b)"
| "_ - _ = NaN"

fun times_number :: "number \<Rightarrow> number \<Rightarrow> number" where
  "Num a * Num b = Num (a * b)"
| "_ * _ = NaN"

instance ..

end

text \<open>\<open>Math.min\<close> and \<open>Math.max\<close> of two arguments: \<open>NaN\<close> if either is \<open>NaN\<close>.\<close>

fun Math_min :: "number \<Rightarrow> number \<Rightarrow> number" where
  "Math_min (Num a) (Num b) = Num (min a b)"
| "Math_min _ _ = NaN"

fun Math_max :: "number \<Rightarrow> number \<Rightarrow> number" where
  "Math_max (Num a) (Num b) = Num (max a b)"
| "Math_max _ _ = NaN"

text \<open>
  What \<open>obj[key]\<close> finds: nothing, an own property, or the member of
  \<open>Object.prototype\<close> with that name. The members are functions, except \<open>__proto__\<close>,
  which is \<open>Object.prototype\<close> itself; all of them are truthy.
\<close>

datatype 'a property = Undefined | Own 'a | Inherited string

definition objectPrototypeNames :: "string list" where
  "objectPrototypeNames =
     [''constructor'', ''__defineGetter__'', ''__defineSetter__'', ''hasOwnProperty'',
      ''__lookupGetter__'', ''__lookupSetter__'', ''isPrototypeOf'', ''propertyIsEnumerable'',
      ''toString'', ''valueOf'', ''__proto__'', ''toLocaleString'']"

definition getProperty :: "(string \<rightharpoonup> 'a) \<Rightarrow> string \<Rightarrow> 'a property" where
  "getProperty own key =
     (case own key of
        Some v \<Rightarrow> Own v
      | None \<Rightarrow> if key \<in> set objectPrototypeNames then Inherited key else Undefined)"

text \<open>
  The \<open>length\<close> property of a member of \<open>Object.prototype\<close>: the number of parameters of
  a function, and \<open>undefined\<close>, which arithmetic turns into \<open>NaN\<close>, for the object
  \<open>__proto__\<close>.
\<close>

definition memberLength :: "string \<Rightarrow> number" where
  "memberLength name =
     (if name \<in> set [''__defineGetter__'', ''__defineSetter__''] then Num 2
      else if name \<in> set [''constructor'', ''hasOwnProperty'', ''__lookupGetter__'',
                ''__lookupSetter__'', ''isPrototypeOf'', ''propertyIsEnumerable''] then Num 1
      else if name \<in> set [''toString'', ''valueOf'', ''toLocaleString''] then Num 0
      else NaN)"

subsection \<open>InfluenceZoneContext.tsx\<close>

record Vector3 =
  vx :: real
  vy :: real
  vz :: real

text \<open>\<open>THREE.Vector3.distanceTo\<close>: the square root of \<open>distanceToSquared\<close>.\<close>

definition distanceToSquared :: "Vector3 \<Rightarrow> Vector3 \<Rightarrow> real" where
  "distanceToSquared a b =
     (let dx = vx a - vx b; dy = vy a - vy b; dz = vz a - vz b
      in dx * dx + dy * dy + dz * dz)"

definition distanceTo :: "Vector3 \<Rightarrow> Vector3 \<Rightarrow> real" where
  "distanceTo a b = sqrt (distanceToSquared a b)"

type_synonym ZoneType = string

record InfluenceZone =
  zone_id :: string
  zone_type :: ZoneType
  position :: Vector3
  radius :: real
  color :: string
  intensity :: real
  description :: string

record PlayerZoneState =
  activeZones :: "InfluenceZone list"
  isInZone :: bool
  dominantZone :: "InfluenceZone option"

record ZoneProvider =
  zones :: "InfluenceZone list"
  playerPosition :: Vector3
  playerZoneState :: PlayerZoneState

definition initialProvider :: ZoneProvider where
  "initialProvider =
     \<lparr>zones = [],
      playerPosition = \<lparr>vx = 0, vy = 0, vz = 0\<rparr>,
      playerZoneState = \<lparr>activeZones = [], isInZone = False, dominantZone = None\<rparr>\<rparr>"

definition addZone :: "ZoneProvider \<Rightarrow> InfluenceZone \<Rightarrow> ZoneProvider" where
  "addZone st zone = st\<lparr>zones := zones st @ [zone]\<rparr>"

definition removeZone :: "ZoneProvider \<Rightarrow> string \<Rightarrow> ZoneProvider" where
  "removeZone st zoneId = st\<lparr>zones := filter (\<lambda>z. zone_id z \<noteq> zoneId) (zones st)\<rparr>"

text \<open>The table \<open>effects\<close> of \<open>getZoneEffect\<close>, in the order the source writes it.\<close>

definition effects :: "(ZoneType \<times> real) list" where
  "effects =
     [(''ice'', 0.5),
      (''jump_boost'', 1.5),
      (''damage'', 0),
      (''slow'', 0.6),
      (''speed_boost'', 1.5)]"

text \<open>
  What \<open>getZoneEffect\<close> returns: a multiplier, or the member of \<open>Object.prototype\<close> that
  the lookup found, which is not a number.
\<close>

datatype ZoneEffect = Multiplier real | Member string

text \<open>
  \<open>effects[zone.type] || 1\<close>: \<open>undefined\<close> and \<open>0\<close> are falsy and give the right
  operand; a non-zero entry and an inherited member are truthy and are returned as they are.
\<close>

definition getZoneEffect :: "InfluenceZone \<Rightarrow> ZoneEffect" where
  "getZoneEffect zone =
     (case getProperty (map_of effects) (zone_type zone) of
        Undefined \<Rightarrow> Multiplier 1
      | Own n \<Rightarrow> if n = 0 then Multiplier 1 else Multiplier n
      | Inherited name \<Rightarrow> Member name)"

text \<open>The membership test inside the \<open>filter\<close> callback of \<open>updatePlayerZones\<close>.\<close>

definition isInside :: "Vector3 \<Rightarrow> InfluenceZone \<Rightarrow> bool" where
  "isInside playerPos zone =
     (let distance = distanceTo playerPos (position zone) in distance \<le> radius zone)"

definition updatePlayerZones :: "ZoneProvider \<Rightarrow> Vector3 \<Rightarrow> ZoneProvider" where
  "updatePlayerZones st playerPos =
     (let active = filter (isInside playerPos) (zones st);
          dominant = (case active of [] \<Rightarrow> None | a # _ \<Rightarrow> Some a)
      in st\<lparr>playerPosition := playerPos,
            playerZoneState :=
              \<lparr>activeZones = active, isInZone = (active \<noteq> []), dominantZone = dominant\<rparr>\<rparr>)"

text \<open>The resolver as the spec names it: the zone state computed for a registry and a position.\<close>

definition resolve :: "Vector3 \<Rightarrow> InfluenceZone list \<Rightarrow> PlayerZoneState" where
  "resolve p Z = playerZoneState (updatePlayerZones (initialProvider\<lparr>zones := Z\<rparr>) p)"

text \<open>A zone of the given type, centre and radius, with fixed display metadata.\<close>

definition mkZone :: "string \<Rightarrow> ZoneType \<Rightarrow> Vector3 \<Rightarrow> real \<Rightarrow> InfluenceZone" where
  "mkZone i t c r =
     \<lparr>zone_id = i, zone_type = t, position = c, radius = r,
      color = ''#ffffff'', intensity = 1, description = ''''\<rparr>"

subsection \<open>LeafGeometrySystem.ts\<close>

text \<open>The field \<open>length\<close> of the source is \<open>length_leaf\<close> here.\<close>

record LeafProperties =
  width :: number
  length_leaf :: number
  pointiness :: number
  surface :: number
  thickness :: number

text \<open>
  \<open>clamp(value, min, max) = Math.max(min, Math.min(max, value))\<close>; the same helper is
  declared in LeafGeometrySystem.ts and in the morph-history provider.
\<close>

definition clamp :: "number \<Rightarrow> number \<Rightarrow> number \<Rightarrow> number" where
  "clamp v lo hi = Math_max lo (Math_min hi v)"

definition clampLeafProperties :: "LeafProperties \<Rightarrow> LeafProperties" where
  "clampLeafProperties props =
     \<lparr>width = clamp (width props) (Num 0) (Num 1),
      length_leaf = clamp (length_leaf props) (Num 0.5) (Num 1.5),
      pointiness = clamp (pointiness props) (Num 0) (Num 1),
      surface = clamp (surface props) (Num 0) (Num 1),
      thickness = clamp (thickness props) (Num 0) (Num 1)\<rparr>"

text \<open>
  A member of \<open>Object.prototype\<close> read as if it were leaf properties: it has no
  \<open>width\<close>, \<open>pointiness\<close>, \<open>surface\<close> or \<open>thickness\<close>, and \<open>undefined\<close> becomes
  \<open>NaN\<close> in \<open>Math.min\<close> and in arithmetic; its \<open>length\<close> is \<open>memberLength\<close>.
\<close>

definition memberAsLeaf :: "string \<Rightarrow> LeafProperties" where
  "memberAsLeaf name =
     \<lparr>width = NaN, length_leaf = memberLength name, pointiness = NaN, surface = NaN,
      thickness = NaN\<rparr>"

definition conditions :: "(string \<times> LeafProperties) list" where
  "conditions =
     [(''speed_boost'',
        \<lparr>width = Num 0.8, length_leaf = Num 1.2, pointiness = Num 0.2, surface = Num 0.5,
         thickness = Num 0.12\<rparr>),
      (''jump_boost'',
        \<lparr>width = Num 0.3, length_leaf = Num 1.5, pointiness = Num 0.8, surface = Num 0.8,
         thickness = Num 0.18\<rparr>),
      (''ice'',
        \<lparr>width = Num 0.4, length_leaf = Num 0.8, pointiness = Num 0.6, surface = Num 0.9,
         thickness = Num 0.15\<rparr>),
      (''slow'',
        \<lparr>width = Num 0.6, length_leaf = Num 0.9, pointiness = Num 0.3, surface = Num 0.2,
         thickness = Num 0.2\<rparr>),
      (''damage'',
        \<lparr>width = Num 0.2, length_leaf = Num 0.6, pointiness = Num 0.9, surface = Num 1.0,
         thickness = Num 0.08\<rparr>)]"

text \<open>
  \<open>conditions[zoneType] || {...}\<close>: an entry of the table is an object and truthy, and so
  is an inherited member; only \<open>undefined\<close> falls back to the default properties.
\<close>

definition getLeafPropertiesFromZone :: "string \<Rightarrow> LeafProperties" where
  "getLeafPropertiesFromZone zoneType =
     (let baseProps =
        (case getProperty (map_of conditions) zoneType of
           Own p \<Rightarrow> p
         | Inherited name \<Rightarrow> memberAsLeaf name
         | Undefined \<Rightarrow>
             \<lparr>width = Num 0.5, length_leaf = Num 1.0, pointiness = Num 0.5, surface = Num 0.3,
              thickness = Num 0.1\<rparr>)
      in clampLeafProperties baseProps)"

text \<open>
  \<open>THREE.MathUtils.smoothstep\<close> and \<open>THREE.MathUtils.lerp\<close>, as three.js defines them;
  both comparisons of \<open>smoothstep\<close> are false on \<open>NaN\<close>, and the polynomial is then
  \<open>NaN\<close>.
\<close>

fun smoothstep :: "number \<Rightarrow> real \<Rightarrow> real \<Rightarrow> number" where
  "smoothstep (Num x) lo hi =
     Num (if x \<le> lo then 0
          else if x \<ge> hi then 1
          else (let t = (x - lo) / (hi - lo) in t * t * (3 - 2 * t)))"
| "smoothstep NaN lo hi = NaN"

definition lerp :: "number \<Rightarrow> number \<Rightarrow> number \<Rightarrow> number" where
  "lerp a b t = (Num 1 - t) * a + t * b"

definition morphLeafProperties ::
  "LeafProperties \<Rightarrow> LeafProperties \<Rightarrow> number \<Rightarrow> LeafProperties" where
  "morphLeafProperties fromProps toProps progress =
     (let eased = smoothstep progress 0 1;
          morphed =
            \<lparr>width = lerp (width fromProps) (width toProps) eased,
             length_leaf = lerp (length_leaf fromProps) (length_leaf toProps) eased,
             pointiness = lerp (pointiness fromProps) (pointiness toProps) eased,
             surface = lerp (surface fromProps) (surface toProps) eased,
             thickness = lerp (thickness fromProps) (thickness toProps) eased\<rparr>
      in clampLeafProperties morphed)"

text \<open>
  A \<open>THREE.BufferGeometry\<close> is represented by what it was built from: the empty geometry of
  \<open>new THREE.BufferGeometry()\<close>, or the leaf mesh that \<open>generateLeafGeometry\<close> computes
  from the clamped properties (its vertex and index buffers are a function of them alone).
\<close>

datatype BufferGeometry = EmptyGeometry | LeafGeometry LeafProperties

definition generateLeafGeometry :: "LeafProperties \<Rightarrow> BufferGeometry" where
  "generateLeafGeometry rawProps = LeafGeometry (clampLeafProperties rawProps)"

subsection \<open>The morph-history provider (LeafMorphHistoryProvider)\<close>

definition DEFAULT_LEAF :: LeafProperties where
  "DEFAULT_LEAF =
     \<lparr>width = Num 0.5, length_leaf = Num 1.0, pointiness = Num 0.5, surface = Num 0.3,
      thickness = Num 0.1\<rparr>"

definition blendLeafProperties ::
  "LeafProperties \<Rightarrow> LeafProperties \<Rightarrow> number \<Rightarrow> LeafProperties" where
  "blendLeafProperties a b weightB =
     (let w = clamp weightB (Num 0) (Num 1)
      in \<lparr>width = clamp (width a * (Num 1 - w) + width b * w) (Num 0) (Num 1),
          length_leaf =
            clamp (length_leaf a * (Num 1 - w) + length_leaf b * w) (Num 0.5) (Num 1.5),
          pointiness = clamp (pointiness a * (Num 1 - w) + pointiness b * w) (Num 0) (Num 1),
          surface = clamp (surface a * (Num 1 - w) + surface b * w) (Num 0) (Num 1),
          thickness = clamp (thickness a * (Num 1 - w) + thickness b * w) (Num 0) (Num 1)\<rparr>)"

text \<open>
  The history is a plain object, built from \<open>{}\<close> by spreading and one computed key: the
  map holds its own properties, and \<open>morphHistory[zoneId]\<close> is a lookup like any other.
\<close>

type_synonym MorphHistory = "string \<rightharpoonup> LeafProperties"

record HistoryProvider =
  morphHistory :: MorphHistory
  currentMorph :: LeafProperties

definition initialHistory :: HistoryProvider where
  "initialHistory = \<lparr>morphHistory = Map.empty, currentMorph = DEFAULT_LEAF\<rparr>"

definition recordZoneMorph :: "HistoryProvider \<Rightarrow> string \<Rightarrow> LeafProperties \<Rightarrow> HistoryProvider" where
  "recordZoneMorph st zoneId props = st\<lparr>morphHistory := (morphHistory st)(zoneId \<mapsto> props)\<rparr>"

text \<open>
  The \<open>for\<close> loop of \<open>getAccumulatedMorph\<close>. The guard \<open>if (morphHistory[zoneId])\<close> is
  true for a recorded entry and for an inherited member, which is then blended as if it were
  leaf properties; it is false for \<open>undefined\<close>, and \<open>accumulated\<close> stays as it is.
\<close>

fun accumulate :: "MorphHistory \<Rightarrow> LeafProperties \<Rightarrow> string list \<Rightarrow> LeafProperties" where
  "accumulate h accumulated [] = accumulated"
| "accumulate h accumulated (zoneId # rest) =
     accumulate h
       (case getProperty h zoneId of
          Own recorded \<Rightarrow> blendLeafProperties accumulated recorded (Num 0.5)
        | Inherited name \<Rightarrow> blendLeafProperties accumulated (memberAsLeaf name) (Num 0.5)
        | Undefined \<Rightarrow> accumulated)
       rest"

text \<open>\<open>getAccumulatedMorph\<close> returns its result and the provider after \<open>setCurrentMorph\<close>.\<close>

definition getAccumulatedMorph ::
  "HistoryProvider \<Rightarrow> string list \<Rightarrow> LeafProperties \<times> HistoryProvider" where
  "getAccumulatedMorph st zoneIds =
     (if zoneIds = [] then (currentMorph st, st)
      else (let accumulated = accumulate (morphHistory st) DEFAULT_LEAF zoneIds
            in (accumulated, st\<lparr>currentMorph := accumulated\<rparr>)))"

definition resetHistory :: "HistoryProvider \<Rightarrow> HistoryProvider" where
  "resetHistory st = st\<lparr>morphHistory := Map.empty, currentMorph := DEFAULT_LEAF\<rparr>"

definition getCurrentMorph :: "HistoryProvider \<Rightarrow> LeafProperties" where
  "getCurrentMorph st = currentMorph st"

subsection \<open>AdaptiveLeafMesh.tsx\<close>

record LeafMorphState =
  currentLeafGeometry :: BufferGeometry
  targetLeafGeometry :: BufferGeometry
  morphProgress :: real
  isTransitioning :: bool

text \<open>
  The refs of the component: \<open>morphStateRef\<close>, \<open>previousZoneType\<close>, \<open>showSporesRef\<close>,
  whether \<open>meshRef.current\<close> is set, and what the frame callback writes: the two uniforms
  and the rotation of the mesh. \<open>materialRef.current\<close> is assigned at every render and is
  never null.
\<close>

record AdaptiveLeaf =
  morphState :: LeafMorphState
  previousZoneType :: string
  showSpores :: bool
  meshMounted :: bool
  uTime :: real
  uMorphProgress :: real
  rotationY :: real
  rotationX :: real

definition initialLeaf :: AdaptiveLeaf where
  "initialLeaf =
     \<lparr>morphState =
        \<lparr>currentLeafGeometry = EmptyGeometry, targetLeafGeometry = EmptyGeometry,
         morphProgress = 0, isTransitioning = False\<rparr>,
      previousZoneType = [],
      showSpores = False,
      meshMounted = False,
      uTime = 0, uMorphProgress = 0, rotationY = 0, rotationX = 0\<rparr>"

text \<open>
  The \<open>useEffect\<close> on \<open>zoneType\<close>; the empty string is falsy in
  \<open>previousZoneType.current || 'default'\<close>.
\<close>

definition zoneChangeEffect :: "AdaptiveLeaf \<Rightarrow> string \<Rightarrow> AdaptiveLeaf" where
  "zoneChangeEffect st zoneType =
     (if zoneType = previousZoneType st then st
      else
        (let currentProps =
               getLeafPropertiesFromZone
                 (if previousZoneType st = [] then ''default'' else previousZoneType st);
             targetProps = getLeafPropertiesFromZone zoneType
         in st\<lparr>morphState :=
                 \<lparr>currentLeafGeometry = generateLeafGeometry currentProps,
                  targetLeafGeometry = generateLeafGeometry targetProps,
                  morphProgress = 0,
                  isTransitioning = True\<rparr>,
               showSpores := True,
               previousZoneType := zoneType\<rparr>))"

text \<open>
  The \<open>useFrame\<close> callback, given \<open>clock.getDelta()\<close> and \<open>clock.elapsedTime\<close>;
  \<open>advanceMorph\<close> is its block "Update morph progress".
\<close>

definition advanceMorph :: "LeafMorphState \<Rightarrow> real \<Rightarrow> LeafMorphState" where
  "advanceMorph ms delta =
     (if isTransitioning ms then
        (let p = morphProgress ms + delta * 2.0
         in if p \<ge> 1.0 then ms\<lparr>morphProgress := 1.0, isTransitioning := False\<rparr>
            else ms\<lparr>morphProgress := p\<rparr>)
      else ms)"

definition useFrame :: "AdaptiveLeaf \<Rightarrow> real \<Rightarrow> real \<Rightarrow> AdaptiveLeaf" where
  "useFrame st delta elapsedTime =
     (if \<not> meshMounted st then st
      else
        (let ms = advanceMorph (morphState st) delta;
             spores =
               (if isTransitioning (morphState st)
                   \<and> morphProgress (morphState st) + delta * 2.0 \<ge> 1.0
                then False else showSpores st)
         in st\<lparr>morphState := ms,
               showSpores := spores,
               uTime := elapsedTime,
               uMorphProgress := morphProgress ms,
               rotationY := rotationY st + 0.5 * delta,
               rotationX := sin (elapsedTime * 0.3) * 0.3\<rparr>))"

text \<open>
  What can happen to a rendered component: React attaches the mesh, the \<open>zoneType\<close> prop is
  given a value, or a frame is drawn.
\<close>

datatype LeafEvent = Mount | ZoneType string | Frame real real

fun leafStep :: "AdaptiveLeaf \<Rightarrow> LeafEvent \<Rightarrow> AdaptiveLeaf" where
  "leafStep st Mount = st\<lparr>meshMounted := True\<rparr>"
| "leafStep st (ZoneType t) = zoneChangeEffect st t"
| "leafStep st (Frame delta elapsedTime) = useFrame st delta elapsedTime"

definition runLeaf :: "LeafEvent list \<Rightarrow> AdaptiveLeaf" where
  "runLeaf evs = foldl leafStep initialLeaf evs"

text \<open>Elapsed time is never negative: \<open>clock.getDelta()\<close> is a difference of a monotonic clock.\<close>

fun validEvent :: "LeafEvent \<Rightarrow> bool" where
  "validEvent (Frame delta elapsedTime) = (0 \<le> delta)"
| "validEvent _ = True"

subsection \<open>Reference definitions and scenarios\<close>

text \<open>
  The Euclidean distance of the spec's active-set rule, written with squares; the code's
  \<open>distanceTo\<close> is compared with it.
\<close>

definition euclidean_distance :: "Vector3 \<Rightarrow> Vector3 \<Rightarrow> real" where
  "euclidean_distance a b = sqrt ((vx a - vx b)\<^sup>2 + (vy a - vy b)\<^sup>2 + (vz a - vz b)\<^sup>2)"

text \<open>The end-to-end scenario of the spec: two overlapping zones and a player between them.\<close>

definition zoneA :: InfluenceZone where
  "zoneA = mkZone ''A'' ''ice'' \<lparr>vx = 0, vy = 0, vz = 0\<rparr> 3"

definition zoneB :: InfluenceZone where
  "zoneB = mkZone ''B'' ''speed_boost'' \<lparr>vx = 0, vy = 0, vz = 5\<rparr> 3"

definition playerAt :: "real \<Rightarrow> Vector3" where
  "playerAt d = \<lparr>vx = 0, vy = 0, vz = d\<rparr>"

text \<open>A returned effect that is a strictly positive multiplier.\<close>

fun positiveMultiplier :: "ZoneEffect \<Rightarrow> bool" where
  "positiveMultiplier (Multiplier r) = (0 < r)"
| "positiveMultiplier (Member name) = False"

text \<open>
  The valid ranges of the five shape parameters; \<open>NaN\<close> is in no range. A numeric leaf
  has no \<open>NaN\<close> field, and a plain name is one that objects do not inherit.
\<close>

fun inRange :: "real \<Rightarrow> real \<Rightarrow> number \<Rightarrow> bool" where
  "inRange lo hi (Num v) = (lo \<le> v \<and> v \<le> hi)"
| "inRange lo hi NaN = False"

definition validLeaf :: "LeafProperties \<Rightarrow> bool" where
  "validLeaf p \<longleftrightarrow>
     inRange 0 1 (width p)
     \<and> inRange 0.5 1.5 (length_leaf p)
     \<and> inRange 0 1 (pointiness p)
     \<and> inRange 0 1 (surface p)
     \<and> inRange 0 1 (thickness p)"

fun isNumeric :: "number \<Rightarrow> bool" where
  "isNumeric (Num v) = True"
| "isNumeric NaN = False"

definition numericLeaf :: "LeafProperties \<Rightarrow> bool" where
  "numericLeaf p \<longleftrightarrow>
     isNumeric (width p) \<and> isNumeric (length_leaf p) \<and> isNumeric (pointiness p)
     \<and> isNumeric (surface p) \<and> isNumeric (thickness p)"

definition plainName :: "string \<Rightarrow> bool" where
  "plainName name \<longleftrightarrow> name \<notin> set objectPrototypeNames"

text \<open>
  The accumulator as the spec words it: clamp constrains a value to an interval, the blend
  of the accumulator with a recorded set is \<open>clamp(accumulator * 0.5 + recorded * 0.5)\<close>
  per property (length in [0.5, 1.5], the others in [0, 1]), and the accumulated morph is
  the left fold of the blend from \<open>DEFAULT_LEAF\<close> over the recorded sets. \<open>NaN\<close> is
  neither below nor above a bound, so constraining leaves it as it is.
\<close>

fun spec_clamp :: "real \<Rightarrow> real \<Rightarrow> number \<Rightarrow> number" where
  "spec_clamp lo hi (Num v) = Num (if v < lo then lo else if hi < v then hi else v)"
| "spec_clamp lo hi NaN = NaN"

definition spec_blend :: "LeafProperties \<Rightarrow> LeafProperties \<Rightarrow> LeafProperties" where
  "spec_blend acc recorded =
     \<lparr>width = spec_clamp 0 1 (width acc * Num 0.5 + width recorded * Num 0.5),
      length_leaf =
        spec_clamp 0.5 1.5 (length_leaf acc * Num 0.5 + length_leaf recorded * Num 0.5),
      pointiness = spec_clamp 0 1 (pointiness acc * Num 0.5 + pointiness recorded * Num 0.5),
      surface = spec_clamp 0 1 (surface acc * Num 0.5 + surface recorded * Num 0.5),
      thickness = spec_clamp 0 1 (thickness acc * Num 0.5 + thickness recorded * Num 0.5)\<rparr>"

definition spec_fold :: "LeafProperties list \<Rightarrow> LeafProperties" where
  "spec_fold recorded = foldl spec_blend DEFAULT_LEAF recorded"

text \<open>The entry recorded for an id that has one.\<close>

definition recordedFor :: "MorphHistory \<Rightarrow> string \<Rightarrow> LeafProperties" where
  "recordedFor h zoneId = the (h zoneId)"

text \<open>
  The spec's rule for an id without an entry, read literally: the slot of that id holds
  \<open>DEFAULT_LEAF\<close>.
\<close>

definition spec_slot :: "MorphHistory \<Rightarrow> string \<Rightarrow> LeafProperties" where
  "spec_slot h zoneId = (case h zoneId of Some recorded \<Rightarrow> recorded | None \<Rightarrow> DEFAULT_LEAF)"

text \<open>
  The accumulator example of the spec: the zone \<open>speed_boost\<close> is visited and its mapped
  properties recorded, then the zone \<open>jump_boost\<close>.
\<close>

definition visited1 :: HistoryProvider where
  "visited1 =
     recordZoneMorph initialHistory ''speed_boost'' (getLeafPropertiesFromZone ''speed_boost'')"

definition visited2 :: HistoryProvider where
  "visited2 =
     recordZoneMorph visited1 ''jump_boost'' (getLeafPropertiesFromZone ''jump_boost'')"

text \<open>
  The invariant of the morph progress, the events that are a change of the \<open>zoneType\<close>
  prop, and a component interrupted in flight: mounted, sent into the \<open>ice\<close> zone, and
  drawn once after 0.1 seconds.
\<close>

definition progressInvariant :: "LeafMorphState \<Rightarrow> bool" where
  "progressInvariant ms \<longleftrightarrow>
     0 \<le> morphProgress ms \<and> morphProgress ms \<le> 1
     \<and> (isTransitioning ms \<longrightarrow> morphProgress ms < 1)"

fun isZoneTypeEvent :: "LeafEvent \<Rightarrow> bool" where
  "isZoneTypeEvent (ZoneType t) = True"
| "isZoneTypeEvent _ = False"

definition inFlight :: AdaptiveLeaf where
  "inFlight = runLeaf [Mount, ZoneType ''ice'', Frame 0.1 0.1]"

section \<open>Properties\<close>

subsection \<open>Property lookup\<close>

lemma getProperty_own: "own key = Some v \<Longrightarrow> getProperty own key = Own v"
  by (simp add: getProperty_def)

lemma getProperty_plain:
  "own key = None \<Longrightarrow> plainName key \<Longrightarrow> getProperty own key = Undefined"
  by (simp add: getProperty_def plainName_def)

lemma getProperty_inherited:
  "own key = None \<Longrightarrow> \<not> plainName key \<Longrightarrow> getProperty own key = Inherited key"
  by (simp add: getProperty_def plainName_def)

lemma effects_keys_plain: "map_of effects key = Some n \<Longrightarrow> plainName key"
  by (auto simp: effects_def plainName_def objectPrototypeNames_def split: if_splits)

lemma effects_values: "map_of effects key = Some n \<Longrightarrow> n \<in> {0.5, 1.5, 0, 0.6}"
  by (auto simp: effects_def split: if_splits)

subsection \<open>Effect multipliers\<close>

text \<open>
  C1 (code at the hazard entry). The table lists \<open>'damage': 0\<close>, but the result passes
  through \<open>|| 1\<close>, and \<open>0\<close> is falsy: a zone of type \<open>damage\<close> gets the multiplier 1,
  not 0. The other four entries and the default come out as the table says.
\<close>

theorem getZoneEffect_damage_is_one:
  "getZoneEffect (mkZone ''hazard-1'' ''damage'' \<lparr>vx = 0, vy = 0, vz = 0\<rparr> 3) = Multiplier 1
   \<and> map_of effects ''damage'' = Some 0
   \<and> getZoneEffect (mkZone ''a'' ''ice'' \<lparr>vx = 0, vy = 0, vz = 0\<rparr> 3) = Multiplier 0.5
   \<and> getZoneEffect (mkZone ''b'' ''jump_boost'' \<lparr>vx = 0, vy = 0, vz = 0\<rparr> 3) = Multiplier 1.5
   \<and> getZoneEffect (mkZone ''c'' ''slow'' \<lparr>vx = 0, vy = 0, vz = 0\<rparr> 3) = Multiplier 0.6
   \<and> getZoneEffect (mkZone ''d'' ''speed_boost'' \<lparr>vx = 0, vy = 0, vz = 0\<rparr> 3) = Multiplier 1.5
   \<and> getZoneEffect (mkZone ''e'' ''lava'' \<lparr>vx = 0, vy = 0, vz = 0\<rparr> 3) = Multiplier 1"
  by (simp add: getZoneEffect_def mkZone_def effects_def getProperty_def objectPrototypeNames_def)

text \<open>
  C9 as stated fails. For a zone whose type string names a member that every object
  inherits, such as \<open>constructor\<close>, the lookup in the table finds that member; it is
  truthy, so \<open>|| 1\<close> does not apply, and what is returned is the member, not a positive
  number.
\<close>

theorem getZoneEffect_inherited_counterexample:
  "getZoneEffect (mkZone ''z'' ''constructor'' \<lparr>vx = 0, vy = 0, vz = 0\<rparr> 3) = Member ''constructor''
   \<and> \<not> positiveMultiplier (getZoneEffect (mkZone ''z'' ''constructor'' \<lparr>vx = 0, vy = 0, vz = 0\<rparr> 3))"
  by (simp add: getZoneEffect_def mkZone_def effects_def getProperty_def objectPrototypeNames_def)

text \<open>
  C9, amended. For a zone whose type is one of the five declared types, or any other
  string that is not the name of a member inherited from \<open>Object.prototype\<close>, the
  multiplier returned by \<open>getZoneEffect\<close> is strictly positive, and these are the only
  types for which it is. For no zone at all is the result 0; for the type \<open>damage\<close> it
  is 1.
\<close>

theorem getZoneEffect_positive:
  "(positiveMultiplier (getZoneEffect zone) \<longleftrightarrow> plainName (zone_type zone))
   \<and> getZoneEffect zone \<noteq> Multiplier 0
   \<and> getZoneEffect (zone\<lparr>zone_type := ''damage''\<rparr>) = Multiplier 1"
proof -
  let ?t = "zone_type zone"
  have damage: "getZoneEffect (zone\<lparr>zone_type := ''damage''\<rparr>) = Multiplier 1"
    by (simp add: getZoneEffect_def effects_def getProperty_def)
  show ?thesis
  proof (cases "map_of effects ?t")
    case (Some n)
    then have "plainName ?t" and "n \<in> {0.5, 1.5, 0, 0.6}"
      by (rule effects_keys_plain, rule effects_values)
    with Some damage show ?thesis
      by (auto simp: getZoneEffect_def getProperty_own)
  next
    case None
    show ?thesis
    proof (cases "plainName ?t")
      case True
      with None damage show ?thesis
        by (simp add: getZoneEffect_def getProperty_plain)
    next
      case False
      with None damage show ?thesis
        by (simp add: getZoneEffect_def getProperty_inherited)
    qed
  qed
qed

theorem getZoneEffect_positive_witness:
  "plainName (zone_type (mkZone ''e'' ''lava'' \<lparr>vx = 0, vy = 0, vz = 0\<rparr> 3))
   \<and> positiveMultiplier (getZoneEffect (mkZone ''e'' ''lava'' \<lparr>vx = 0, vy = 0, vz = 0\<rparr> 3))
   \<and> getZoneEffect ((mkZone ''e'' ''lava'' \<lparr>vx = 0, vy = 0, vz = 0\<rparr> 3)\<lparr>zone_type := ''damage''\<rparr>)
       = Multiplier 1"
proof -
  have "plainName (zone_type (mkZone ''e'' ''lava'' \<lparr>vx = 0, vy = 0, vz = 0\<rparr> 3))"
    by (simp add: mkZone_def plainName_def objectPrototypeNames_def)
  with getZoneEffect_positive [of "mkZone ''e'' ''lava'' \<lparr>vx = 0, vy = 0, vz = 0\<rparr> 3"]
  show ?thesis by simp
qed

subsection \<open>Membership and dominance\<close>

lemma distanceTo_euclidean: "distanceTo a b = euclidean_distance a b"
  by (simp add: distanceTo_def distanceToSquared_def euclidean_distance_def
      power2_eq_square Let_def)

lemma isInside_euclidean: "isInside p z \<longleftrightarrow> euclidean_distance p (position z) \<le> radius z"
  by (simp add: isInside_def distanceTo_euclidean)

lemma isInside_squared:
  assumes "0 \<le> radius z"
  shows "isInside p z \<longleftrightarrow> distanceToSquared p (position z) \<le> (radius z)\<^sup>2"
proof -
  have "isInside p z \<longleftrightarrow> sqrt (distanceToSquared p (position z)) \<le> sqrt ((radius z)\<^sup>2)"
    using assms by (simp add: isInside_def distanceTo_def)
  then show ?thesis by (simp only: real_sqrt_le_iff)
qed

lemma activeZones_update:
  "activeZones (playerZoneState (updatePlayerZones st p)) = filter (isInside p) (zones st)"
  by (simp add: updatePlayerZones_def Let_def)

lemma first_of_filter: "(case filter P xs of [] \<Rightarrow> None | a # _ \<Rightarrow> Some a) = List.find P xs"
  by (induction xs) auto

lemma dominantZone_update:
  "dominantZone (playerZoneState (updatePlayerZones st p)) = List.find (isInside p) (zones st)"
  by (simp add: updatePlayerZones_def Let_def first_of_filter)

lemma scenario_inside:
  "isInside (playerAt 2) zoneA" "isInside (playerAt 2) zoneB"
  by (simp_all add: isInside_squared zoneA_def zoneB_def playerAt_def mkZone_def
      distanceToSquared_def)

lemma scenario_boundary: "euclidean_distance (playerAt 2) (position zoneB) = radius zoneB"
  by (simp add: euclidean_distance_def zoneB_def playerAt_def mkZone_def real_sqrt_unique)

text \<open>
  C3. The dominant zone is the first zone of the registry, in registration order, that
  passes the membership test: it is \<open>find\<close> of the test over the list, that is, the zone at
  the least index whose test passes, and there is none exactly when no zone passes. For two
  zones A and B that both contain p, the dominant zone of [A, B] is A and that of [B, A] is B.
\<close>

theorem dominant_is_first_inside:
  "dominantZone (playerZoneState (updatePlayerZones st p)) = List.find (isInside p) (zones st)
   \<and> (dominantZone (playerZoneState (updatePlayerZones st p)) = Some d \<longleftrightarrow>
        (\<exists>i<length (zones st). isInside p (zones st ! i) \<and> d = zones st ! i
           \<and> (\<forall>j<i. \<not> isInside p (zones st ! j))))
   \<and> (dominantZone (playerZoneState (updatePlayerZones st p)) = None \<longleftrightarrow>
        (\<forall>z \<in> set (zones st). \<not> isInside p z))
   \<and> (isInside p A \<and> isInside p B \<longrightarrow>
        dominantZone (resolve p [A, B]) = Some A \<and> dominantZone (resolve p [B, A]) = Some B)"
proof -
  have "dominantZone (resolve p [A, B]) = Some A \<and> dominantZone (resolve p [B, A]) = Some B"
    if "isInside p A" "isInside p B"
    using that by (simp add: resolve_def dominantZone_update)
  then show ?thesis
    by (simp only: dominantZone_update find_Some_iff find_None_iff) blast
qed

theorem dominant_is_first_inside_witness:
  "isInside (playerAt 2) zoneA \<and> isInside (playerAt 2) zoneB
   \<and> zoneA \<noteq> zoneB
   \<and> dominantZone (resolve (playerAt 2) [zoneA, zoneB]) = Some zoneA
   \<and> dominantZone (resolve (playerAt 2) [zoneB, zoneA]) = Some zoneB"
proof -
  have "zoneA \<noteq> zoneB" by (simp add: zoneA_def zoneB_def mkZone_def)
  with dominant_is_first_inside [of initialProvider "playerAt 2" zoneA zoneA zoneB] scenario_inside
  show ?thesis by simp
qed

text \<open>
  C4. The active zones are exactly the zones of the registry whose Euclidean distance from
  the position to the centre is at most the radius, in registry order; a zone at distance
  equal to its radius is active.
\<close>

theorem activeZones_exact:
  "activeZones (playerZoneState (updatePlayerZones st p))
     = filter (\<lambda>z. euclidean_distance p (position z) \<le> radius z) (zones st)
   \<and> set (activeZones (playerZoneState (updatePlayerZones st p)))
     = {z \<in> set (zones st). euclidean_distance p (position z) \<le> radius z}
   \<and> (z \<in> set (zones st) \<and> euclidean_distance p (position z) = radius z
        \<longrightarrow> z \<in> set (activeZones (playerZoneState (updatePlayerZones st p))))"
proof -
  have "isInside p = (\<lambda>z. euclidean_distance p (position z) \<le> radius z)"
    by (rule ext) (rule isInside_euclidean)
  then show ?thesis by (simp add: activeZones_update)
qed

theorem activeZones_exact_witness:
  "zoneB \<in> set (zones (initialProvider\<lparr>zones := [zoneA, zoneB]\<rparr>))
   \<and> euclidean_distance (playerAt 2) (position zoneB) = radius zoneB
   \<and> zoneB \<in> set (activeZones (playerZoneState
        (updatePlayerZones (initialProvider\<lparr>zones := [zoneA, zoneB]\<rparr>) (playerAt 2))))"
  using activeZones_exact [of "initialProvider\<lparr>zones := [zoneA, zoneB]\<rparr>" "playerAt 2" zoneB]
    scenario_boundary
  by simp

subsection \<open>Clamping\<close>

lemma isNumeric_iff: "isNumeric x \<longleftrightarrow> (\<exists>v. x = Num v)"
  by (cases x) simp_all

lemma numeric_ops:
  "isNumeric x \<Longrightarrow> isNumeric y \<Longrightarrow> isNumeric (x + y)"
  "isNumeric x \<Longrightarrow> isNumeric y \<Longrightarrow> isNumeric (x - y)"
  "isNumeric x \<Longrightarrow> isNumeric y \<Longrightarrow> isNumeric (x * y)"
  by (auto simp: isNumeric_iff)

lemma numeric_Num: "isNumeric (Num v)"
  by simp

lemma numeric_clamp: "isNumeric x \<Longrightarrow> isNumeric (clamp x (Num lo) (Num hi))"
  by (auto simp: isNumeric_iff clamp_def)

lemma numeric_smoothstep: "isNumeric x \<Longrightarrow> isNumeric (smoothstep x lo hi)"
  by (auto simp: isNumeric_iff)

lemma numeric_lerp: "isNumeric a \<Longrightarrow> isNumeric b \<Longrightarrow> isNumeric t \<Longrightarrow> isNumeric (lerp a b t)"
  unfolding lerp_def by (intro numeric_ops numeric_Num)

lemma clamp_unit: "isNumeric x \<Longrightarrow> inRange 0 1 (clamp x (Num 0) (Num 1))"
  by (auto simp: isNumeric_iff clamp_def)

lemma clamp_len: "isNumeric x \<Longrightarrow> inRange 0.5 1.5 (clamp x (Num 0.5) (Num 1.5))"
  by (auto simp: isNumeric_iff clamp_def)

lemma clamp_NaN: "clamp NaN lo hi = NaN"
  by (cases hi; cases lo) (simp_all add: clamp_def)

lemma validLeaf_clamp: "numericLeaf p \<Longrightarrow> validLeaf (clampLeafProperties p)"
  unfolding validLeaf_def clampLeafProperties_def numericLeaf_def LeafProperties.select_convs
  by (simp only: clamp_unit clamp_len simp_thms)

lemma validLeaf_morph:
  assumes "numericLeaf fromProps" "numericLeaf toProps" "isNumeric progress"
  shows "validLeaf (morphLeafProperties fromProps toProps progress)"
  unfolding morphLeafProperties_def Let_def
  using assms
  by (intro validLeaf_clamp) (simp add: numericLeaf_def numeric_lerp numeric_smoothstep)

lemma validLeaf_blend:
  assumes "numericLeaf a" "numericLeaf b" "isNumeric w"
  shows "validLeaf (blendLeafProperties a b w)"
proof -
  have w: "isNumeric (clamp w (Num 0) (Num 1))"
    using assms(3) by (rule numeric_clamp)
  have mix: "isNumeric (x * (Num 1 - clamp w (Num 0) (Num 1)) + y * clamp w (Num 0) (Num 1))"
    if "isNumeric x" "isNumeric y" for x y
    using that w by (intro numeric_ops numeric_Num)
  show ?thesis
    unfolding validLeaf_def blendLeafProperties_def Let_def LeafProperties.select_convs
    using assms(1,2) unfolding numericLeaf_def
    by (intro conjI clamp_unit clamp_len mix) simp_all
qed

lemma conditions_numeric: "map_of conditions key = Some p \<Longrightarrow> numericLeaf p"
  by (auto simp: conditions_def numericLeaf_def split: if_splits)

lemma validLeaf_mapped: "plainName zoneType \<Longrightarrow> validLeaf (getLeafPropertiesFromZone zoneType)"
proof (cases "map_of conditions zoneType")
  case None
  assume "plainName zoneType"
  with None show ?thesis
    unfolding getLeafPropertiesFromZone_def Let_def
    by (simp only: getProperty_plain property.case) (rule validLeaf_clamp, simp add: numericLeaf_def)
next
  case (Some p)
  then show ?thesis
    unfolding getLeafPropertiesFromZone_def Let_def
    by (simp only: getProperty_own property.case) (rule validLeaf_clamp, rule conditions_numeric)
qed

lemma blend_width_saturates:
  assumes "width a * (Num 1 - clamp w (Num 0) (Num 1)) + width b * clamp w (Num 0) (Num 1) = Num u"
    and "1 \<le> u"
  shows "width (blendLeafProperties a b w) = Num 1"
proof -
  have "width (blendLeafProperties a b w)
          = clamp (width a * (Num 1 - clamp w (Num 0) (Num 1)) + width b * clamp w (Num 0) (Num 1))
              (Num 0) (Num 1)"
    by (simp add: blendLeafProperties_def Let_def)
  also have "\<dots> = Num 1"
    unfolding assms(1) using assms(2) by (simp add: clamp_def)
  finally show ?thesis .
qed

lemma mapped_constructor:
  "getLeafPropertiesFromZone ''constructor'' =
     \<lparr>width = NaN, length_leaf = Num 1, pointiness = NaN, surface = NaN, thickness = NaN\<rparr>"
  by (simp add: getLeafPropertiesFromZone_def conditions_def getProperty_def
      objectPrototypeNames_def memberAsLeaf_def memberLength_def clampLeafProperties_def clamp_def)

text \<open>
  C5 as stated fails. The mapper is declared on every string; for \<open>constructor\<close> the
  lookup in \<open>conditions\<close> finds the inherited function, which has a \<open>length\<close> but none
  of the other four fields, and clamping leaves \<open>NaN\<close> as it is. Blending or
  interpolating such properties gives \<open>NaN\<close> again.
\<close>

theorem leaf_properties_inherited_counterexample:
  "width (getLeafPropertiesFromZone ''constructor'') = NaN
   \<and> length_leaf (getLeafPropertiesFromZone ''constructor'') = Num 1
   \<and> \<not> validLeaf (getLeafPropertiesFromZone ''constructor'')
   \<and> \<not> validLeaf (blendLeafProperties DEFAULT_LEAF
          (getLeafPropertiesFromZone ''constructor'') (Num 0.5))
   \<and> \<not> validLeaf (morphLeafProperties DEFAULT_LEAF
          (getLeafPropertiesFromZone ''constructor'') (Num 0.5))"
  by (simp add: mapped_constructor validLeaf_def blendLeafProperties_def morphLeafProperties_def
      lerp_def clampLeafProperties_def Let_def DEFAULT_LEAF_def clamp_def)

text \<open>
  C5, amended. For every zone-type string that is not the name of a member inherited from
  \<open>Object.prototype\<close>, the zone-to-leaf mapper returns properties with width,
  pointiness, surface and thickness in [0, 1] and length in [0.5, 1.5]; so do the
  interpolator and the history blend for all finite inputs, in range or out of range (no
  field, weight or progress \<open>NaN\<close>). A blend whose unclamped width is 1 or more, such
  as 1.4, has width exactly 1.
\<close>

theorem leaf_properties_in_range:
  "(plainName zoneType \<longrightarrow> validLeaf (getLeafPropertiesFromZone zoneType))
   \<and> (numericLeaf fromProps \<and> numericLeaf toProps \<and> isNumeric progress \<longrightarrow>
        validLeaf (morphLeafProperties fromProps toProps progress))
   \<and> (numericLeaf a \<and> numericLeaf b \<and> isNumeric weightB \<longrightarrow>
        validLeaf (blendLeafProperties a b weightB))
   \<and> (width a * (Num 1 - clamp weightB (Num 0) (Num 1)) + width b * clamp weightB (Num 0) (Num 1)
          = Num u \<and> 1 \<le> u
        \<longrightarrow> width (blendLeafProperties a b weightB) = Num 1)"
  using validLeaf_mapped validLeaf_morph validLeaf_blend blend_width_saturates by blast

theorem leaf_properties_in_range_witness:
  "plainName ''lava'' \<and> validLeaf (getLeafPropertiesFromZone ''lava'')
   \<and> numericLeaf (DEFAULT_LEAF\<lparr>width := Num 7\<rparr>)
   \<and> numericLeaf (DEFAULT_LEAF\<lparr>length_leaf := Num (- 3)\<rparr>)
   \<and> validLeaf (morphLeafProperties (DEFAULT_LEAF\<lparr>width := Num 7\<rparr>)
        (DEFAULT_LEAF\<lparr>length_leaf := Num (- 3)\<rparr>) (Num 0.5))
   \<and> numericLeaf (DEFAULT_LEAF\<lparr>width := Num 1.4\<rparr>)
   \<and> width (DEFAULT_LEAF\<lparr>width := Num 1.4\<rparr>) * (Num 1 - clamp (Num 0.5) (Num 0) (Num 1))
       + width (DEFAULT_LEAF\<lparr>width := Num 1.4\<rparr>) * clamp (Num 0.5) (Num 0) (Num 1) = Num 1.4
   \<and> width (blendLeafProperties (DEFAULT_LEAF\<lparr>width := Num 1.4\<rparr>)
        (DEFAULT_LEAF\<lparr>width := Num 1.4\<rparr>) (Num 0.5)) = Num 1
   \<and> validLeaf (blendLeafProperties (DEFAULT_LEAF\<lparr>width := Num 1.4\<rparr>)
        (DEFAULT_LEAF\<lparr>width := Num 1.4\<rparr>) (Num 0.5))"
proof -
  have plain: "plainName ''lava''"
    by (simp add: plainName_def objectPrototypeNames_def)
  have numeric: "numericLeaf (DEFAULT_LEAF\<lparr>width := Num 7\<rparr>)"
    "numericLeaf (DEFAULT_LEAF\<lparr>length_leaf := Num (- 3)\<rparr>)"
    "numericLeaf (DEFAULT_LEAF\<lparr>width := Num 1.4\<rparr>)"
    by (simp_all add: numericLeaf_def DEFAULT_LEAF_def)
  have unclamped:
    "width (DEFAULT_LEAF\<lparr>width := Num 1.4\<rparr>) * (Num 1 - clamp (Num 0.5) (Num 0) (Num 1))
       + width (DEFAULT_LEAF\<lparr>width := Num 1.4\<rparr>) * clamp (Num 0.5) (Num 0) (Num 1) = Num 1.4"
    by (simp add: clamp_def)
  from leaf_properties_in_range
    [of "''lava''" "DEFAULT_LEAF\<lparr>width := Num 7\<rparr>" "DEFAULT_LEAF\<lparr>length_leaf := Num (- 3)\<rparr>"
      "Num 0.5" "DEFAULT_LEAF\<lparr>width := Num 1.4\<rparr>" "DEFAULT_LEAF\<lparr>width := Num 1.4\<rparr>"
      "Num 0.5" "1.4"]
    plain numeric unclamped
  show ?thesis by simp
qed

subsection \<open>The accumulated morph\<close>

lemma clamp_half: "clamp (Num 0.5) (Num 0) (Num 1) = Num 0.5"
  by (simp add: clamp_def)

lemma blend_unit:
  "clamp (x * (Num 1 - Num 0.5) + y * Num 0.5) (Num 0) (Num 1)
     = spec_clamp 0 1 (x * Num 0.5 + y * Num 0.5)"
  by (cases x; cases y) (simp_all add: clamp_def)

lemma blend_len:
  "clamp (x * (Num 1 - Num 0.5) + y * Num 0.5) (Num 0.5) (Num 1.5)
     = spec_clamp 0.5 1.5 (x * Num 0.5 + y * Num 0.5)"
  by (cases x; cases y) (simp_all add: clamp_def)

lemma blend_half: "blendLeafProperties a b (Num 0.5) = spec_blend a b"
  unfolding blendLeafProperties_def spec_blend_def Let_def clamp_half blend_unit blend_len
  by (rule refl)

lemma accumulate_known:
  "set ids \<subseteq> dom h \<Longrightarrow> accumulate h acc ids = foldl spec_blend acc (map (recordedFor h) ids)"
proof (induction ids arbitrary: acc)
  case Nil
  show ?case by simp
next
  case (Cons i ids)
  then obtain r where r: "h i = Some r" by auto
  from Cons.prems have "set ids \<subseteq> dom h" by simp
  then have "accumulate h (spec_blend acc r) ids
      = foldl spec_blend (spec_blend acc r) (map (recordedFor h) ids)"
    by (rule Cons.IH)
  moreover have "accumulate h acc (i # ids) = accumulate h (spec_blend acc r) ids"
    using r by (simp only: accumulate.simps getProperty_own property.case blend_half)
  moreover have "recordedFor h i = r"
    using r by (simp add: recordedFor_def)
  ultimately show ?case by simp
qed

lemma accumulate_filter:
  "list_all (\<lambda>j. j \<in> dom h \<or> plainName j) ids \<Longrightarrow>
   accumulate h acc ids = accumulate h acc (filter (\<lambda>j. j \<in> dom h) ids)"
proof (induction ids arbitrary: acc)
  case Nil
  show ?case by simp
next
  case (Cons i ids)
  show ?case
  proof (cases "h i")
    case None
    with Cons.prems have "plainName i" by auto
    with None Cons show ?thesis
      by (simp add: getProperty_plain domIff)
  next
    case (Some r)
    with Cons show ?thesis
      by (simp add: getProperty_own domIff)
  qed
qed

lemma accumulate_skip:
  "h zoneId = None \<Longrightarrow> plainName zoneId \<Longrightarrow>
   accumulate h acc (pre @ zoneId # post) = accumulate h acc (pre @ post)"
  by (induction pre arbitrary: acc) (simp_all add: getProperty_plain)

lemma getAccumulatedMorph_Cons:
  "fst (getAccumulatedMorph st (i # ids)) = accumulate (morphHistory st) DEFAULT_LEAF (i # ids)"
  "snd (getAccumulatedMorph st (i # ids))
     = st\<lparr>currentMorph := accumulate (morphHistory st) DEFAULT_LEAF (i # ids)\<rparr>"
  by (simp_all add: getAccumulatedMorph_def Let_def)

lemma mapped_speed_boost:
  "getLeafPropertiesFromZone ''speed_boost'' =
     \<lparr>width = Num 0.8, length_leaf = Num 1.2, pointiness = Num 0.2, surface = Num 0.5,
      thickness = Num 0.12\<rparr>"
  by (simp add: getLeafPropertiesFromZone_def conditions_def getProperty_def
      clampLeafProperties_def clamp_def)

lemma mapped_jump_boost:
  "getLeafPropertiesFromZone ''jump_boost'' =
     \<lparr>width = Num 0.3, length_leaf = Num 1.5, pointiness = Num 0.8, surface = Num 0.8,
      thickness = Num 0.18\<rparr>"
  by (simp add: getLeafPropertiesFromZone_def conditions_def getProperty_def
      clampLeafProperties_def clamp_def)

lemma visited1_history:
  "morphHistory visited1 = [''speed_boost'' \<mapsto> getLeafPropertiesFromZone ''speed_boost'']"
  by (simp add: visited1_def recordZoneMorph_def initialHistory_def)

lemma visited2_history:
  "morphHistory visited2 =
     [''speed_boost'' \<mapsto> getLeafPropertiesFromZone ''speed_boost'',
      ''jump_boost'' \<mapsto> getLeafPropertiesFromZone ''jump_boost'']"
  by (simp add: visited2_def recordZoneMorph_def visited1_history)

lemma accumulated_visited1:
  "accumulate (morphHistory visited1) DEFAULT_LEAF [''speed_boost''] =
     \<lparr>width = Num 0.65, length_leaf = Num 1.1, pointiness = Num 0.35, surface = Num 0.4,
      thickness = Num 0.11\<rparr>"
  by (simp add: visited1_history mapped_speed_boost getProperty_def blendLeafProperties_def
      DEFAULT_LEAF_def clamp_def Let_def)

lemma accumulated_visited2:
  "accumulate (morphHistory visited2) DEFAULT_LEAF [''speed_boost'', ''jump_boost''] =
     \<lparr>width = Num 0.475, length_leaf = Num 1.3, pointiness = Num 0.575, surface = Num 0.6,
      thickness = Num 0.145\<rparr>"
  by (simp add: visited2_history mapped_speed_boost mapped_jump_boost getProperty_def
      blendLeafProperties_def DEFAULT_LEAF_def clamp_def Let_def)

lemma accumulated_constructor:
  "accumulate (morphHistory initialHistory) DEFAULT_LEAF [''constructor''] =
     \<lparr>width = NaN, length_leaf = Num 1, pointiness = NaN, surface = NaN, thickness = NaN\<rparr>"
  by (simp add: initialHistory_def getProperty_def objectPrototypeNames_def memberAsLeaf_def
      memberLength_def blendLeafProperties_def DEFAULT_LEAF_def clamp_def Let_def)

text \<open>
  C2. For a non-empty list of zone ids that all have an entry in the history,
  \<open>getAccumulatedMorph\<close> returns the left fold, from \<open>DEFAULT_LEAF\<close> =
  (0.5, 1.0, 0.5, 0.3, 0.1), of the per-property blend \<open>clamp(acc * 0.5 + recorded * 0.5)\<close>
  over the recorded sets in list order. After a visit to \<open>speed_boost\<close> (width 0.8) the
  accumulated width is 0.65; after \<open>jump_boost\<close> (width 0.3) as well it is 0.475.
\<close>

theorem getAccumulatedMorph_is_fold:
  "(zoneIds \<noteq> [] \<and> set zoneIds \<subseteq> dom (morphHistory st) \<longrightarrow>
      fst (getAccumulatedMorph st zoneIds)
        = spec_fold (map (recordedFor (morphHistory st)) zoneIds))
   \<and> DEFAULT_LEAF =
       \<lparr>width = Num 0.5, length_leaf = Num 1.0, pointiness = Num 0.5, surface = Num 0.3,
        thickness = Num 0.1\<rparr>
   \<and> width (getLeafPropertiesFromZone ''speed_boost'') = Num 0.8
   \<and> width (fst (getAccumulatedMorph visited1 [''speed_boost''])) = Num 0.65
   \<and> width (getLeafPropertiesFromZone ''jump_boost'') = Num 0.3
   \<and> width (fst (getAccumulatedMorph visited2 [''speed_boost'', ''jump_boost''])) = Num 0.475"
proof -
  have "fst (getAccumulatedMorph st zoneIds)
          = spec_fold (map (recordedFor (morphHistory st)) zoneIds)"
    if "zoneIds \<noteq> []" "set zoneIds \<subseteq> dom (morphHistory st)"
    using that by (simp add: getAccumulatedMorph_def Let_def accumulate_known spec_fold_def)
  moreover have "width (fst (getAccumulatedMorph visited1 [''speed_boost''])) = Num 0.65"
    by (simp only: getAccumulatedMorph_Cons accumulated_visited1 LeafProperties.select_convs)
  moreover have
    "width (fst (getAccumulatedMorph visited2 [''speed_boost'', ''jump_boost''])) = Num 0.475"
    by (simp only: getAccumulatedMorph_Cons accumulated_visited2 LeafProperties.select_convs)
  ultimately show ?thesis
    by (simp add: DEFAULT_LEAF_def mapped_speed_boost mapped_jump_boost)
qed

theorem getAccumulatedMorph_is_fold_witness:
  "[''speed_boost'', ''jump_boost''] \<noteq> []
   \<and> set [''speed_boost'', ''jump_boost''] \<subseteq> dom (morphHistory visited2)
   \<and> fst (getAccumulatedMorph visited2 [''speed_boost'', ''jump_boost''])
       = spec_fold [getLeafPropertiesFromZone ''speed_boost'',
                    getLeafPropertiesFromZone ''jump_boost'']"
  using getAccumulatedMorph_is_fold [of "[''speed_boost'', ''jump_boost'']" visited2]
  by (simp add: visited2_history recordedFor_def)

text \<open>
  C8 as stated fails. Read as written, the slot of an id without an entry holds
  \<open>DEFAULT_LEAF\<close> and is blended like any other; the code blends nothing for it. After
  \<open>speed_boost\<close>, the list [speed_boost, nowhere] gives width 0.65 in the code, and 0.575
  when the unknown slot is filled with \<open>DEFAULT_LEAF\<close>. And an id without an entry is
  not always treated as not recorded: for \<open>constructor\<close> the guard finds the inherited
  member and blends it, which leaves width \<open>NaN\<close>.
\<close>

theorem getAccumulatedMorph_unknown_counterexample:
  "morphHistory visited1 ''nowhere'' = None
   \<and> width (fst (getAccumulatedMorph visited1 [''speed_boost'', ''nowhere''])) = Num 0.65
   \<and> width (spec_fold (map (spec_slot (morphHistory visited1)) [''speed_boost'', ''nowhere'']))
       = Num 0.575
   \<and> fst (getAccumulatedMorph visited1 [''speed_boost'', ''nowhere''])
       \<noteq> spec_fold (map (spec_slot (morphHistory visited1)) [''speed_boost'', ''nowhere''])
   \<and> morphHistory initialHistory ''constructor'' = None
   \<and> width (fst (getAccumulatedMorph initialHistory [''constructor''])) = NaN"
proof -
  have unknown: "morphHistory visited1 ''nowhere'' = None"
    by (simp add: visited1_history)
  have plain: "plainName ''nowhere''"
    by (simp add: plainName_def objectPrototypeNames_def)
  have "accumulate (morphHistory visited1) DEFAULT_LEAF ([''speed_boost''] @ ''nowhere'' # [])
          = accumulate (morphHistory visited1) DEFAULT_LEAF ([''speed_boost''] @ [])"
    using unknown plain by (rule accumulate_skip)
  then have code: "width (fst (getAccumulatedMorph visited1 [''speed_boost'', ''nowhere'']))
      = Num 0.65"
    by (simp only: getAccumulatedMorph_Cons accumulated_visited1 LeafProperties.select_convs
        append.simps)
  have spec: "width (spec_fold (map (spec_slot (morphHistory visited1))
                [''speed_boost'', ''nowhere''])) = Num 0.575"
    by (simp add: spec_fold_def spec_slot_def visited1_history mapped_speed_boost spec_blend_def
        DEFAULT_LEAF_def)
  from code spec have differ: "fst (getAccumulatedMorph visited1 [''speed_boost'', ''nowhere''])
       \<noteq> spec_fold (map (spec_slot (morphHistory visited1)) [''speed_boost'', ''nowhere''])"
    by auto
  have inherited: "width (fst (getAccumulatedMorph initialHistory [''constructor''])) = NaN"
    by (simp only: getAccumulatedMorph_Cons accumulated_constructor LeafProperties.select_convs)
  from unknown code spec differ inherited show ?thesis
    by (simp add: initialHistory_def)
qed

text \<open>
  C8, amended. \<open>getAccumulatedMorph\<close> returns a value for every list of ids. An id that
  has no entry and is not the name of a member inherited from \<open>Object.prototype\<close> is
  skipped, leaving the accumulator as it was: when every id of a non-empty list has an
  entry or is such a name, the result is the fold over the ids that have an entry;
  dropping such an id anywhere in the list does not change the accumulation; and a
  non-empty list of such ids only gives \<open>DEFAULT_LEAF\<close>.
\<close>

theorem getAccumulatedMorph_skips_unknown:
  "(list_all (\<lambda>j. j \<in> dom (morphHistory st) \<or> plainName j) (i # ids) \<longrightarrow>
      fst (getAccumulatedMorph st (i # ids))
        = spec_fold (map (recordedFor (morphHistory st))
            (filter (\<lambda>j. j \<in> dom (morphHistory st)) (i # ids))))
   \<and> (h zoneId = None \<and> plainName zoneId \<longrightarrow>
        accumulate h acc (pre @ zoneId # post) = accumulate h acc (pre @ post))
   \<and> (list_all (\<lambda>j. j \<notin> dom (morphHistory st) \<and> plainName j) (i # ids) \<longrightarrow>
        fst (getAccumulatedMorph st (i # ids)) = DEFAULT_LEAF)"
proof -
  let ?h = "morphHistory st"
  let ?known = "filter (\<lambda>j. j \<in> dom ?h) (i # ids)"
  have fold: "fst (getAccumulatedMorph st (i # ids)) = spec_fold (map (recordedFor ?h) ?known)"
    if ok: "list_all (\<lambda>j. j \<in> dom ?h \<or> plainName j) (i # ids)"
  proof -
    from ok have "accumulate ?h DEFAULT_LEAF (i # ids) = accumulate ?h DEFAULT_LEAF ?known"
      by (rule accumulate_filter)
    also have "\<dots> = foldl spec_blend DEFAULT_LEAF (map (recordedFor ?h) ?known)"
      by (rule accumulate_known) auto
    finally show ?thesis
      by (simp only: getAccumulatedMorph_Cons spec_fold_def)
  qed
  have none: "fst (getAccumulatedMorph st (i # ids)) = DEFAULT_LEAF"
    if unknown: "list_all (\<lambda>j. j \<notin> dom ?h \<and> plainName j) (i # ids)"
  proof -
    from unknown have "list_all (\<lambda>j. j \<in> dom ?h \<or> plainName j) (i # ids)"
      by (auto simp: list_all_iff)
    then have "fst (getAccumulatedMorph st (i # ids)) = spec_fold (map (recordedFor ?h) ?known)"
      by (rule fold)
    moreover from unknown have "?known = []"
      by (auto simp: list_all_iff filter_empty_conv)
    ultimately show ?thesis by (simp add: spec_fold_def)
  qed
  from fold none accumulate_skip [of h zoneId acc pre post] show ?thesis by blast
qed

theorem getAccumulatedMorph_skips_unknown_witness:
  "list_all (\<lambda>j. j \<in> dom (morphHistory visited1) \<or> plainName j) [''speed_boost'', ''nowhere'']
   \<and> fst (getAccumulatedMorph visited1 [''speed_boost'', ''nowhere''])
       = spec_fold [getLeafPropertiesFromZone ''speed_boost'']
   \<and> morphHistory visited1 ''nowhere'' = None \<and> plainName ''nowhere''
   \<and> accumulate (morphHistory visited1) DEFAULT_LEAF ([''speed_boost''] @ ''nowhere'' # [])
       = accumulate (morphHistory visited1) DEFAULT_LEAF ([''speed_boost''] @ [])
   \<and> list_all (\<lambda>j. j \<notin> dom (morphHistory visited1) \<and> plainName j) [''nowhere'', ''elsewhere'']
   \<and> fst (getAccumulatedMorph visited1 [''nowhere'', ''elsewhere'']) = DEFAULT_LEAF"
proof -
  have plain: "plainName ''nowhere''" "plainName ''elsewhere''"
    by (simp_all add: plainName_def objectPrototypeNames_def)
  from getAccumulatedMorph_skips_unknown
    [of visited1 "''speed_boost''" "[''nowhere'']" "morphHistory visited1" "''nowhere''"
      DEFAULT_LEAF "[''speed_boost'']" "[]"] plain
  have first: "fst (getAccumulatedMorph visited1 [''speed_boost'', ''nowhere''])
       = spec_fold [getLeafPropertiesFromZone ''speed_boost'']"
    and skip: "accumulate (morphHistory visited1) DEFAULT_LEAF ([''speed_boost''] @ ''nowhere'' # [])
       = accumulate (morphHistory visited1) DEFAULT_LEAF ([''speed_boost''] @ [])"
    by (simp_all add: visited1_history recordedFor_def)
  from getAccumulatedMorph_skips_unknown
    [of visited1 "''nowhere''" "[''elsewhere'']" "morphHistory visited1" "''nowhere''"
      DEFAULT_LEAF "[]" "[]"] plain
  have none: "fst (getAccumulatedMorph visited1 [''nowhere'', ''elsewhere'']) = DEFAULT_LEAF"
    by (simp add: visited1_history spec_fold_def)
  from first skip none plain show ?thesis
    by (simp add: visited1_history)
qed

text \<open>
  C10. On the empty list \<open>getAccumulatedMorph\<close> returns the stored current morph and
  leaves the provider as it is; it does not fold. The stored morph is \<open>DEFAULT_LEAF\<close>
  at first and the result of the latest accumulation afterwards, so after the visit to
  \<open>speed_boost\<close> the empty list gives width 0.65, not \<open>DEFAULT_LEAF\<close>.
\<close>

theorem getAccumulatedMorph_empty_is_stored:
  "getAccumulatedMorph st [] = (currentMorph st, st)
   \<and> fst (getAccumulatedMorph initialHistory []) = DEFAULT_LEAF
   \<and> fst (getAccumulatedMorph (snd (getAccumulatedMorph st (i # ids))) [])
       = fst (getAccumulatedMorph st (i # ids))
   \<and> width (fst (getAccumulatedMorph
        (snd (getAccumulatedMorph visited1 [''speed_boost''])) [])) = Num 0.65
   \<and> fst (getAccumulatedMorph (snd (getAccumulatedMorph visited1 [''speed_boost''])) [])
       \<noteq> DEFAULT_LEAF"
proof -
  have stored: "getAccumulatedMorph s [] = (currentMorph s, s)" for s
    by (simp add: getAccumulatedMorph_def)
  have latest: "fst (getAccumulatedMorph (snd (getAccumulatedMorph s (j # js))) [])
       = fst (getAccumulatedMorph s (j # js))" for s j js
    by (simp add: stored getAccumulatedMorph_Cons)
  have w: "width (fst (getAccumulatedMorph
        (snd (getAccumulatedMorph visited1 [''speed_boost''])) [])) = Num 0.65"
    unfolding latest
    by (simp only: getAccumulatedMorph_Cons accumulated_visited1 LeafProperties.select_convs)
  then have "fst (getAccumulatedMorph (snd (getAccumulatedMorph visited1 [''speed_boost''])) [])
       \<noteq> DEFAULT_LEAF"
    by (auto simp: DEFAULT_LEAF_def)
  with stored latest w show ?thesis
    by (simp add: initialHistory_def)
qed

subsection \<open>The morph transition\<close>

lemma unmapped_default:
  "getProperty (map_of conditions) [] = Undefined"
  "getProperty (map_of conditions) ''default'' = Undefined"
  by (simp_all add: conditions_def getProperty_def objectPrototypeNames_def)

lemma source_key:
  "getLeafPropertiesFromZone (if t = [] then ''default'' else t) = getLeafPropertiesFromZone t"
  by (simp add: getLeafPropertiesFromZone_def unmapped_default)

lemma default_key: "getLeafPropertiesFromZone ''default'' = getLeafPropertiesFromZone []"
  using source_key [of "[]"] by simp

lemma zoneChange_morphState:
  "zoneType \<noteq> previousZoneType st \<Longrightarrow>
   morphState (zoneChangeEffect st zoneType) =
     \<lparr>currentLeafGeometry = generateLeafGeometry (getLeafPropertiesFromZone (previousZoneType st)),
      targetLeafGeometry = generateLeafGeometry (getLeafPropertiesFromZone zoneType),
      morphProgress = 0, isTransitioning = True\<rparr>"
  by (simp add: zoneChangeEffect_def Let_def source_key)

lemma zoneChange_previous: "previousZoneType (zoneChangeEffect st zoneType) = zoneType"
  by (simp add: zoneChangeEffect_def Let_def)

lemma mapped_ice:
  "getLeafPropertiesFromZone ''ice'' =
     \<lparr>width = Num 0.4, length_leaf = Num 0.8, pointiness = Num 0.6, surface = Num 0.9,
      thickness = Num 0.15\<rparr>"
  by (simp add: getLeafPropertiesFromZone_def conditions_def getProperty_def
      clampLeafProperties_def clamp_def)

lemma mapped_default:
  "getLeafPropertiesFromZone [] =
     \<lparr>width = Num 0.5, length_leaf = Num 1.0, pointiness = Num 0.5, surface = Num 0.3,
      thickness = Num 0.1\<rparr>"
  by (simp add: getLeafPropertiesFromZone_def unmapped_default clampLeafProperties_def clamp_def)

lemma inFlight_state:
  "previousZoneType inFlight = ''ice''"
  "meshMounted inFlight"
  "morphState inFlight =
     \<lparr>currentLeafGeometry = generateLeafGeometry (getLeafPropertiesFromZone []),
      targetLeafGeometry = generateLeafGeometry (getLeafPropertiesFromZone ''ice''),
      morphProgress = 0.2, isTransitioning = True\<rparr>"
  by (simp_all add: inFlight_def runLeaf_def initialLeaf_def zoneChangeEffect_def useFrame_def
      advanceMorph_def Let_def default_key)

lemma inFlight_displayed_width:
  "width (morphLeafProperties (getLeafPropertiesFromZone []) (getLeafPropertiesFromZone ''ice'')
     (Num 0.2)) = Num 0.4896"
  by (simp add: mapped_ice mapped_default morphLeafProperties_def lerp_def Let_def
      clampLeafProperties_def clamp_def)

text \<open>
  C6. When the zone type differs from the previous one, whatever the morph state at that
  moment (idle, or in flight with progress below 1), the effect sets the source geometry
  to the one generated from the mapped properties of the previous type, the target
  geometry to the one generated from the mapped properties of the new type, progress to 0
  and the transitioning flag; the morph state it leaves does not depend on the morph
  state it found.
\<close>

theorem zone_change_captures_static_mapping:
  "zoneType \<noteq> previousZoneType st \<longrightarrow>
     (let st' = zoneChangeEffect st zoneType in
        currentLeafGeometry (morphState st')
          = generateLeafGeometry (getLeafPropertiesFromZone (previousZoneType st))
      \<and> targetLeafGeometry (morphState st')
          = generateLeafGeometry (getLeafPropertiesFromZone zoneType)
      \<and> morphProgress (morphState st') = 0
      \<and> isTransitioning (morphState st')
      \<and> previousZoneType st' = zoneType
      \<and> morphState (zoneChangeEffect (st\<lparr>morphState := ms\<rparr>) zoneType) = morphState st')"
proof
  assume ne: "zoneType \<noteq> previousZoneType st"
  then have ne': "zoneType \<noteq> previousZoneType (st\<lparr>morphState := ms\<rparr>)" by simp
  show "let st' = zoneChangeEffect st zoneType in
        currentLeafGeometry (morphState st')
          = generateLeafGeometry (getLeafPropertiesFromZone (previousZoneType st))
      \<and> targetLeafGeometry (morphState st')
          = generateLeafGeometry (getLeafPropertiesFromZone zoneType)
      \<and> morphProgress (morphState st') = 0
      \<and> isTransitioning (morphState st')
      \<and> previousZoneType st' = zoneType
      \<and> morphState (zoneChangeEffect (st\<lparr>morphState := ms\<rparr>) zoneType) = morphState st'"
    unfolding Let_def zoneChange_morphState [OF ne] zoneChange_morphState [OF ne']
      zoneChange_previous
    by simp
qed

theorem zone_change_captures_static_mapping_witness:
  "''speed_boost'' \<noteq> previousZoneType inFlight
   \<and> isTransitioning (morphState inFlight)
   \<and> morphProgress (morphState inFlight) = 0.2
   \<and> currentLeafGeometry (morphState (zoneChangeEffect inFlight ''speed_boost''))
       = LeafGeometry (getLeafPropertiesFromZone ''ice'')
   \<and> currentLeafGeometry (morphState (zoneChangeEffect inFlight ''speed_boost''))
       \<noteq> generateLeafGeometry (morphLeafProperties (getLeafPropertiesFromZone [])
            (getLeafPropertiesFromZone ''ice'') (Num 0.2))
   \<and> targetLeafGeometry (morphState (zoneChangeEffect inFlight ''speed_boost''))
       = LeafGeometry (getLeafPropertiesFromZone ''speed_boost'')
   \<and> morphProgress (morphState (zoneChangeEffect inFlight ''speed_boost'')) = 0
   \<and> isTransitioning (morphState (zoneChangeEffect inFlight ''speed_boost''))"
proof -
  have ne: "''speed_boost'' \<noteq> previousZoneType inFlight"
    by (simp add: inFlight_state)
  have ice: "generateLeafGeometry (getLeafPropertiesFromZone ''ice'')
      = LeafGeometry (getLeafPropertiesFromZone ''ice'')"
    by (simp add: generateLeafGeometry_def mapped_ice clampLeafProperties_def clamp_def)
  have speed: "generateLeafGeometry (getLeafPropertiesFromZone ''speed_boost'')
      = LeafGeometry (getLeafPropertiesFromZone ''speed_boost'')"
    by (simp add: generateLeafGeometry_def mapped_speed_boost clampLeafProperties_def clamp_def)
  have "width (clampLeafProperties (morphLeafProperties (getLeafPropertiesFromZone [])
      (getLeafPropertiesFromZone ''ice'') (Num 0.2))) = Num 0.4896"
    using inFlight_displayed_width by (simp add: clampLeafProperties_def clamp_def)
  moreover have "width (getLeafPropertiesFromZone ''ice'') = Num 0.4"
    by (simp add: mapped_ice)
  ultimately have differ:
    "LeafGeometry (getLeafPropertiesFromZone ''ice'')
       \<noteq> generateLeafGeometry (morphLeafProperties (getLeafPropertiesFromZone [])
            (getLeafPropertiesFromZone ''ice'') (Num 0.2))"
    by (auto simp: generateLeafGeometry_def)
  from zone_change_captures_static_mapping [of "''speed_boost''" inFlight "morphState inFlight"] ne
  have "currentLeafGeometry (morphState (zoneChangeEffect inFlight ''speed_boost''))
          = LeafGeometry (getLeafPropertiesFromZone ''ice'')
      \<and> targetLeafGeometry (morphState (zoneChangeEffect inFlight ''speed_boost''))
          = LeafGeometry (getLeafPropertiesFromZone ''speed_boost'')
      \<and> morphProgress (morphState (zoneChangeEffect inFlight ''speed_boost'')) = 0
      \<and> isTransitioning (morphState (zoneChangeEffect inFlight ''speed_boost''))"
    by (simp add: Let_def inFlight_state ice speed)
  with ne differ show ?thesis
    by (simp add: inFlight_state)
qed

lemma advance_invariant:
  "progressInvariant ms \<Longrightarrow> 0 \<le> delta \<Longrightarrow> progressInvariant (advanceMorph ms delta)"
  by (auto simp: progressInvariant_def advanceMorph_def Let_def)

lemma frame_morphState:
  "meshMounted st \<Longrightarrow> morphState (useFrame st delta t) = advanceMorph (morphState st) delta"
  by (simp add: useFrame_def Let_def)

lemma step_invariant:
  assumes "progressInvariant (morphState st)" and "validEvent e"
  shows "progressInvariant (morphState (leafStep st e))"
proof (cases e)
  case Mount
  with assms show ?thesis by simp
next
  case (ZoneType t)
  with assms show ?thesis
    by (simp add: zoneChangeEffect_def Let_def progressInvariant_def)
next
  case (Frame d t)
  with assms advance_invariant [of "morphState st" d] show ?thesis
    by (simp add: useFrame_def Let_def)
qed

lemma run_invariant:
  "progressInvariant (morphState st) \<Longrightarrow> list_all validEvent evs \<Longrightarrow>
   progressInvariant (morphState (foldl leafStep st evs))"
  by (induction evs arbitrary: st) (simp_all add: step_invariant)

lemma initial_invariant: "progressInvariant (morphState initialLeaf)"
  by (simp add: progressInvariant_def initialLeaf_def)

lemma idle_step:
  "\<not> isTransitioning (morphState st) \<Longrightarrow> \<not> isZoneTypeEvent e \<Longrightarrow>
   morphState (leafStep st e) = morphState st"
  by (cases e) (simp_all add: useFrame_def advanceMorph_def Let_def)

lemma idle_run:
  "\<not> isTransitioning (morphState st) \<Longrightarrow> list_all (\<lambda>e. \<not> isZoneTypeEvent e) evs \<Longrightarrow>
   morphState (foldl leafStep st evs) = morphState st"
  by (induction evs arbitrary: st) (simp_all add: idle_step)

lemma advance_increases:
  assumes "isTransitioning ms" and "morphProgress ms < 1" and "0 < delta"
  shows "morphProgress ms < morphProgress (advanceMorph ms delta)"
    and "morphProgress (advanceMorph ms delta) \<le> 1"
  using assms by (simp_all add: advanceMorph_def Let_def)

lemma advance_saturates:
  assumes "isTransitioning ms" and "1 \<le> morphProgress ms + delta * 2"
  shows "morphProgress (advanceMorph ms delta) = 1"
    and "\<not> isTransitioning (advanceMorph ms delta)"
  using assms by (simp_all add: advanceMorph_def Let_def)

lemma advance_continues:
  assumes "isTransitioning ms" and "morphProgress ms + delta * 2 < 1"
  shows "morphProgress (advanceMorph ms delta) = morphProgress ms + delta * 2"
    and "isTransitioning (advanceMorph ms delta)"
  using assms by (simp_all add: advanceMorph_def Let_def)

text \<open>
  C7. In every state the component reaches through mounts, zone-type changes and frames
  with non-negative elapsed time, progress lies in [0, 1] and is below 1 while
  transitioning. A frame of the mounted component with positive elapsed time while
  transitioning strictly increases progress, and never beyond 1; when the advanced
  progress reaches or exceeds 1 it is set to exactly 1 and the flag is cleared, otherwise
  it is the old progress plus twice the elapsed time; once the flag is clear, no sequence
  of frames and mounts changes the morph state: only a zone-type change does.
\<close>

theorem morph_progress_monotone_bounded:
  "list_all validEvent evs \<longrightarrow>
     (let st = runLeaf evs; ms = morphState st; ms' = morphState (useFrame st delta t) in
        0 \<le> morphProgress ms \<and> morphProgress ms \<le> 1
      \<and> (isTransitioning ms \<longrightarrow> morphProgress ms < 1)
      \<and> (meshMounted st \<and> isTransitioning ms \<and> 0 < delta \<longrightarrow>
           morphProgress ms < morphProgress ms' \<and> morphProgress ms' \<le> 1)
      \<and> (meshMounted st \<and> isTransitioning ms \<and> 1 \<le> morphProgress ms + delta * 2 \<longrightarrow>
           morphProgress ms' = 1 \<and> \<not> isTransitioning ms')
      \<and> (meshMounted st \<and> isTransitioning ms \<and> morphProgress ms + delta * 2 < 1 \<longrightarrow>
           morphProgress ms' = morphProgress ms + delta * 2 \<and> isTransitioning ms')
      \<and> (\<not> isTransitioning ms \<and> list_all (\<lambda>e. \<not> isZoneTypeEvent e) later \<longrightarrow>
           morphState (foldl leafStep st later) = ms))"
proof
  assume valid: "list_all validEvent evs"
  define st where "st = runLeaf evs"
  define ms where "ms = morphState st"
  define ms' where "ms' = morphState (useFrame st delta t)"
  have inv: "progressInvariant ms"
    unfolding ms_def st_def runLeaf_def
    using initial_invariant valid by (rule run_invariant)
  then have bounds: "0 \<le> morphProgress ms" "morphProgress ms \<le> 1"
    and below: "isTransitioning ms \<longrightarrow> morphProgress ms < 1"
    by (simp_all add: progressInvariant_def)
  have frame: "ms' = advanceMorph ms delta" if "meshMounted st"
    unfolding ms'_def ms_def using that by (rule frame_morphState)
  have incr: "morphProgress ms < morphProgress ms' \<and> morphProgress ms' \<le> 1"
    if "meshMounted st" "isTransitioning ms" "0 < delta"
    using that below frame advance_increases [of ms delta] by simp
  have sat: "morphProgress ms' = 1 \<and> \<not> isTransitioning ms'"
    if "meshMounted st" "isTransitioning ms" "1 \<le> morphProgress ms + delta * 2"
    using that frame advance_saturates [of ms delta] by simp
  have cont: "morphProgress ms' = morphProgress ms + delta * 2 \<and> isTransitioning ms'"
    if "meshMounted st" "isTransitioning ms" "morphProgress ms + delta * 2 < 1"
    using that frame advance_continues [of ms delta] by simp
  have idle: "morphState (foldl leafStep st later) = ms"
    if "\<not> isTransitioning ms" "list_all (\<lambda>e. \<not> isZoneTypeEvent e) later"
    using that unfolding ms_def by (rule idle_run)
  from bounds below incr sat cont idle
  show "let st = runLeaf evs; ms = morphState st; ms' = morphState (useFrame st delta t) in
        0 \<le> morphProgress ms \<and> morphProgress ms \<le> 1
      \<and> (isTransitioning ms \<longrightarrow> morphProgress ms < 1)
      \<and> (meshMounted st \<and> isTransitioning ms \<and> 0 < delta \<longrightarrow>
           morphProgress ms < morphProgress ms' \<and> morphProgress ms' \<le> 1)
      \<and> (meshMounted st \<and> isTransitioning ms \<and> 1 \<le> morphProgress ms + delta * 2 \<longrightarrow>
           morphProgress ms' = 1 \<and> \<not> isTransitioning ms')
      \<and> (meshMounted st \<and> isTransitioning ms \<and> morphProgress ms + delta * 2 < 1 \<longrightarrow>
           morphProgress ms' = morphProgress ms + delta * 2 \<and> isTransitioning ms')
      \<and> (\<not> isTransitioning ms \<and> list_all (\<lambda>e. \<not> isZoneTypeEvent e) later \<longrightarrow>
           morphState (foldl leafStep st later) = ms)"
    unfolding Let_def st_def [symmetric] ms_def [symmetric] ms'_def [symmetric]
    by blast
qed

theorem morph_progress_monotone_bounded_witness:
  "list_all validEvent [Mount, ZoneType ''ice'', Frame 0.1 0.1]
   \<and> meshMounted inFlight \<and> isTransitioning (morphState inFlight)
   \<and> morphProgress (morphState inFlight) = 0.2
   \<and> morphProgress (morphState inFlight) < morphProgress (morphState (useFrame inFlight 0.1 0.2))
   \<and> morphProgress (morphState (useFrame inFlight 0.1 0.2)) = 0.4
   \<and> isTransitioning (morphState (useFrame inFlight 0.1 0.2))
   \<and> morphProgress (morphState (useFrame inFlight 0.5 0.6)) = 1
   \<and> \<not> isTransitioning (morphState (useFrame inFlight 0.5 0.6))
   \<and> list_all validEvent [Mount, ZoneType ''ice'', Frame 0.1 0.1, Frame 0.5 0.6]
   \<and> list_all (\<lambda>e. \<not> isZoneTypeEvent e) [Frame 0.3 0.9, Mount, Frame 0.2 1.1]
   \<and> morphState (foldl leafStep (useFrame inFlight 0.5 0.6) [Frame 0.3 0.9, Mount, Frame 0.2 1.1])
       = morphState (useFrame inFlight 0.5 0.6)"
proof -
  have run1: "runLeaf [Mount, ZoneType ''ice'', Frame 0.1 0.1] = inFlight"
    by (simp only: inFlight_def)
  have run2: "runLeaf [Mount, ZoneType ''ice'', Frame 0.1 0.1, Frame 0.5 0.6]
      = useFrame inFlight 0.5 0.6"
    by (simp add: inFlight_def runLeaf_def)
  have step: "morphProgress (morphState inFlight) < morphProgress (morphState (useFrame inFlight 0.1 0.2))
      \<and> morphProgress (morphState (useFrame inFlight 0.1 0.2)) = 0.4
      \<and> isTransitioning (morphState (useFrame inFlight 0.1 0.2))"
    using morph_progress_monotone_bounded
      [of "[Mount, ZoneType ''ice'', Frame 0.1 0.1]" "0.1" "0.2" "[]"]
    unfolding run1 Let_def by (simp add: inFlight_state)
  have fin: "morphProgress (morphState (useFrame inFlight 0.5 0.6)) = 1
      \<and> \<not> isTransitioning (morphState (useFrame inFlight 0.5 0.6))"
    using morph_progress_monotone_bounded
      [of "[Mount, ZoneType ''ice'', Frame 0.1 0.1]" "0.5" "0.6" "[]"]
    unfolding run1 Let_def by (simp add: inFlight_state)
  have rest: "morphState (foldl leafStep (useFrame inFlight 0.5 0.6)
        [Frame 0.3 0.9, Mount, Frame 0.2 1.1])
      = morphState (useFrame inFlight 0.5 0.6)"
    using morph_progress_monotone_bounded
      [of "[Mount, ZoneType ''ice'', Frame 0.1 0.1, Frame 0.5 0.6]" "0" "0"
        "[Frame 0.3 0.9, Mount, Frame 0.2 1.1]"] fin
    unfolding run2 Let_def by simp
  from step fin rest show ?thesis
    by (simp add: inFlight_state)
qed

end
